theory Spec2Isabelle
  imports Complex_Main "HOL-Library.Word"
begin

section \<open>Request bodies: url.Values\<close>

text \<open>
  A request body is Go's \<open>url.Values\<close>, a \<open>map[string][]string\<close>. \<open>Add\<close> appends a
  value to the list stored under a key (a missing key reads as the empty list).
\<close>

type_synonym url_Values = "string \<rightharpoonup> string list"

definition Add :: "string \<Rightarrow> string \<Rightarrow> url_Values \<Rightarrow> url_Values" where
  "Add k v body = body(k \<mapsto> (case body k of None \<Rightarrow> [] | Some vs \<Rightarrow> vs) @ [v])"

text \<open>A run of \<open>Add\<close> calls, in order.\<close>

definition AddAll :: "(string \<times> string) list \<Rightarrow> url_Values \<Rightarrow> url_Values" where
  "AddAll kvs body = fold (\<lambda>kv. Add (fst kv) (snd kv)) kvs body"

section \<open>strconv\<close>

text \<open>
  The formatting functions of Go's \<open>strconv\<close> that the clients call, always with base 10:
  \<open>FormatUint(u, 10)\<close> on a \<open>uint64\<close>, \<open>FormatInt(i, 10)\<close> on an \<open>int64\<close>,
  \<open>FormatBool\<close>, and \<open>FormatFloat(f, 'f', prec, 64)\<close>.
\<close>

definition digit :: "nat \<Rightarrow> char" where
  "digit d = ''0123456789'' ! d"

fun formatBits :: "nat \<Rightarrow> string" where
  "formatBits n = (if n < 10 then [digit n] else formatBits (n div 10) @ [digit (n mod 10)])"

declare formatBits.simps [simp del]

definition FormatUint :: "64 word \<Rightarrow> string" where
  "FormatUint u = formatBits (unat u)"

definition FormatInt :: "64 word \<Rightarrow> string" where
  "FormatInt i = (if sint i < 0 then CHR ''-'' # formatBits (nat (- sint i))
                  else formatBits (nat (sint i)))"

definition FormatBool :: "bool \<Rightarrow> string" where
  "FormatBool b = (if b then ''true'' else ''false'')"

text \<open>
  A \<open>float64\<close>. Every finite value is \<open>mant * 2 ^ exp\<close> for integers \<open>mant\<close> and \<open>exp\<close>;
  the clients do no arithmetic on it, they compare it with 0 and format it, and both are
  exact on this representation.
\<close>

datatype float64 = Finite int int | PosInf | NegInf | NaN

text \<open>The comparison \<open>f > 0\<close>.\<close>

fun float_pos :: "float64 \<Rightarrow> bool" where
  "float_pos (Finite m e) = (0 < m)"
| "float_pos PosInf = True"
| "float_pos NegInf = False"
| "float_pos NaN = False"

text \<open>
  \<open>roundScaled m e prec\<close> is \<open>|m| * 2 ^ e * 10 ^ prec\<close> rounded to the nearest integer,
  ties to even, as \<open>strconv\<close>'s decimal rounding does.
\<close>

definition roundScaled :: "int \<Rightarrow> int \<Rightarrow> nat \<Rightarrow> nat" where
  "roundScaled m e prec =
     (let num = nat \<bar>m\<bar> * 10 ^ prec * (if 0 \<le> e then 2 ^ nat e else 1);
          den = (if 0 \<le> e then 1 else 2 ^ nat (- e));
          q = num div den;
          r = num mod den
      in if 2 * r < den then q
         else if den < 2 * r then q + 1
         else if even q then q else q + 1)"

definition fracDigits :: "nat \<Rightarrow> nat \<Rightarrow> string" where
  "fracDigits n prec = map (\<lambda>i. digit ((n div 10 ^ (prec - 1 - i)) mod 10)) [0..<prec]"

text \<open>\<open>FormatFloat_f f prec\<close> is \<open>strconv.FormatFloat(f, 'f', prec, 64)\<close>.\<close>

fun FormatFloat_f :: "float64 \<Rightarrow> nat \<Rightarrow> string" where
  "FormatFloat_f NaN prec = ''NaN''"
| "FormatFloat_f PosInf prec = ''+Inf''"
| "FormatFloat_f NegInf prec = ''-Inf''"
| "FormatFloat_f (Finite m e) prec =
     (let n = roundScaled m e prec
      in (if m < 0 then ''-'' else '''')
         @ formatBits (n div 10 ^ prec)
         @ (if 0 < prec then CHR ''.'' # fracDigits n prec else ''''))"

section \<open>Parameters\<close>

text \<open>
  Modelled from the spec: \<open>Params.AppendTo\<close> (the shared parameters every params struct
  embeds) is not among the sources. The spec's encoder contract is that a parameter
  object contributes the fields that are set and nothing else, so the shared parameters
  are represented by the key/value pairs they contribute, added in order; the zero value
  contributes none.
\<close>

record Params =
  Extra :: "(string \<times> string) list"

definition AppendTo :: "'a Params_scheme \<Rightarrow> url_Values \<Rightarrow> url_Values" where
  "AppendTo params body = AddAll (Extra params) body"

text \<open>
  Modelled from the spec: \<open>CardParams.AppendDetails\<close> is not among the sources. The spec
  says a nested object contributes its own fields under its own encoding rule; the card is
  represented by its token and by the pairs its rule contributes (which may depend on the
  \<open>creating\<close> flag the clients pass).
\<close>

record CardParams =
  Token :: string
  Details :: "bool \<Rightarrow> (string \<times> string) list"

definition AppendDetails :: "CardParams \<Rightarrow> url_Values \<Rightarrow> bool \<Rightarrow> url_Values" where
  "AppendDetails cp body creating = AddAll (Details cp creating) body"

text \<open>
  \<open>stripe.SubParams\<close>, with the fields \<open>src/sub/client.go\<close> reads. \<open>Params\<close> is embedded;
  \<open>Card\<close> is a pointer (\<open>None\<close> is nil); \<open>TrialEnd\<close> is an \<open>int64\<close>, \<open>Quantity\<close> a
  \<open>uint64\<close>, \<open>FeePercent\<close> a \<open>float64\<close>.
\<close>

record SubParams = Params +
  Customer :: string
  Plan :: string
  Coupon :: string
  Token :: string
  TrialEnd :: "64 word"
  Card :: "CardParams option"
  Quantity :: "64 word"
  FeePercent :: float64
  NoProrate :: bool
  EndCancel :: bool

section \<open>The subscription client's bodies (src/sub/client.go)\<close>

text \<open>The body \<open>Client.New\<close> builds (lines 33 to 60).\<close>

definition sub_New_body :: "SubParams \<Rightarrow> url_Values" where
  "sub_New_body params =
     (let body = [''plan'' \<mapsto> [Plan params]];
          body = (if 0 < length (SubParams.Token params) then Add ''card'' (SubParams.Token params) body
                  else case Card params of
                         Some cp \<Rightarrow> AppendDetails cp body True
                       | None \<Rightarrow> body);
          body = (if 0 < length (Coupon params) then Add ''coupon'' (Coupon params) body else body);
          body = (if 0 < sint (TrialEnd params)
                  then Add ''trial_end'' (FormatInt (TrialEnd params)) body else body);
          body = (if 0 < Quantity params
                  then Add ''quantity'' (FormatUint (Quantity params)) body else body);
          body = (if float_pos (FeePercent params)
                  then Add ''application_fee_percent'' (FormatFloat_f (FeePercent params) 2) body
                  else body)
      in AppendTo params body)"

text \<open>The body \<open>Client.Update\<close> builds (lines 92 to 129).\<close>

definition sub_Update_body :: "SubParams \<Rightarrow> url_Values" where
  "sub_Update_body params =
     (let body = Map.empty;
          body = (if 0 < length (Plan params) then Add ''plan'' (Plan params) body else body);
          body = (if NoProrate params then Add ''prorate'' (FormatBool False) body else body);
          body = (if 0 < length (SubParams.Token params) then Add ''card'' (SubParams.Token params) body
                  else case Card params of
                         Some cp \<Rightarrow>
                           if 0 < length (CardParams.Token cp)
                           then Add ''card'' (CardParams.Token cp) body
                           else AppendDetails cp body True
                       | None \<Rightarrow> body);
          body = (if 0 < length (Coupon params) then Add ''coupon'' (Coupon params) body else body);
          body = (if 0 < sint (TrialEnd params)
                  then Add ''trial_end'' (FormatInt (TrialEnd params)) body else body);
          body = (if 0 < Quantity params
                  then Add ''quantity'' (FormatUint (Quantity params)) body else body);
          body = (if float_pos (FeePercent params)
                  then Add ''application_fee_percent'' (FormatFloat_f (FeePercent params) 2) body
                  else body)
      in AppendTo params body)"

text \<open>The body \<open>Client.Cancel\<close> builds (lines 144 to 150).\<close>

definition sub_Cancel_body :: "SubParams \<Rightarrow> url_Values" where
  "sub_Cancel_body params =
     (let body = Map.empty;
          body = (if EndCancel params then Add ''at_period_end'' (FormatBool True) body else body)
      in AppendTo params body)"

text \<open>The body \<open>Client.Get\<close> builds (lines 75 to 77).\<close>

definition sub_Get_body :: "SubParams \<Rightarrow> url_Values" where
  "sub_Get_body params = AppendTo params Map.empty"

section \<open>Errors, panics and resources\<close>

text \<open>
  A Go \<open>error\<close> value; \<open>error option\<close> is the interface, \<open>None\<close> being nil. A run-time
  panic ends the call without a result: operations return \<open>panic + result\<close>.
\<close>

datatype error = Error string

datatype panic = NilDereference | IndexOutOfRange | TypeAssertion

text \<open>
  Modelled from the spec: the declarations of \<open>stripe.Sub\<close>, \<open>stripe.Plan\<close>,
  \<open>stripe.ListMeta\<close> and \<open>stripe.SubList\<close> are not among the sources. The spec describes
  resources as flat records mirroring the remote fields, of which only the identifier is
  used here, and \<open>ListMeta\<close> as the total count and the has-more flag. \<open>SubList\<close> and
  \<open>planList\<close> (declared in \<open>plan.Client.List\<close>) embed \<open>ListMeta\<close> and hold \<open>Values\<close>.
\<close>

record Sub =
  ID :: string

record Plan =
  ID :: string

record ListMeta =
  TotalCount :: nat
  HasMore :: bool

record SubList = ListMeta +
  Values :: "Sub list"

record planList = ListMeta +
  Values :: "Plan list"

text \<open>The zero values \<open>&stripe.Sub{}\<close>, \<open>&stripe.Plan{}\<close>, \<open>&stripe.SubList{}\<close>, \<open>&planList{}\<close>.\<close>

definition Sub_zero :: Sub where
  "Sub_zero = \<lparr>Sub.ID = ''''\<rparr>"

definition Plan_zero :: Plan where
  "Plan_zero = \<lparr>Plan.ID = ''''\<rparr>"

definition SubList_zero :: SubList where
  "SubList_zero = \<lparr>TotalCount = 0, HasMore = False, SubList.Values = []\<rparr>"

definition planList_zero :: planList where
  "planList_zero = \<lparr>TotalCount = 0, HasMore = False, planList.Values = []\<rparr>"

section \<open>The Backend\<close>

text \<open>
  \<open>Backend.Call(method, path, key, body, v)\<close> is the only network boundary. A request is
  the first four arguments (a nil body is \<open>None\<close>). The destination \<open>v\<close> is a pointer the
  backend decodes into: the call maps the value behind it to the decoded value and cannot
  change the caller's pointer. Go dispatches on the dynamic type of \<open>v\<close>; the model has one
  instance of \<open>Call\<close> per destination type the clients pass. The state \<open>'w\<close> is everything
  the backend can see and change (the remote server).
\<close>

record Request =
  r_method :: string
  r_path :: string
  r_key :: string
  r_body :: "url_Values option"

record 'w Backend =
  Call_Sub :: "Request \<Rightarrow> Sub \<Rightarrow> 'w \<Rightarrow> (Sub \<times> error option) \<times> 'w"
  Call_SubList :: "Request \<Rightarrow> SubList \<Rightarrow> 'w \<Rightarrow> (SubList \<times> error option) \<times> 'w"
  Call_Plan :: "Request \<Rightarrow> Plan \<Rightarrow> 'w \<Rightarrow> (Plan \<times> error option) \<times> 'w"
  Call_planList :: "Request \<Rightarrow> planList \<Rightarrow> 'w \<Rightarrow> (planList \<times> error option) \<times> 'w"
  Call_nil :: "Request \<Rightarrow> 'w \<Rightarrow> error option \<times> 'w"

text \<open>\<open>sub.Client\<close> and \<open>plan.Client\<close> are the same struct.\<close>

record 'w Client =
  B :: "'w Backend"
  Key :: string

text \<open>
  What an operation returning \<open>(*T, error)\<close> hands back after the call: the pointer it
  allocated (\<open>Some\<close> of the value now behind it) and the backend's error.
\<close>

definition returned :: "('a \<times> error option) \<times> 'w \<Rightarrow> ('a option \<times> error option) \<times> 'w" where
  "returned r = ((Some (fst (fst r)), snd (fst r)), snd r)"

section \<open>The subscription client's operations (src/sub/client.go)\<close>

text \<open>
  \<open>params\<close> is a pointer: \<open>None\<close> is nil. Every operation of the subscription client reads
  a field of \<open>params\<close> before it calls the backend, which panics on nil.
\<close>

definition sub_New_request :: "'w Client \<Rightarrow> SubParams \<Rightarrow> Request" where
  "sub_New_request c params =
     \<lparr>r_method = ''POST'',
      r_path = ''/customers/'' @ SubParams.Customer params @ ''/subscriptions'',
      r_key = Key c,
      r_body = Some (sub_New_body params)\<rparr>"

definition sub_New ::
  "'w Client \<Rightarrow> SubParams option \<Rightarrow> 'w \<Rightarrow> panic + ((Sub option \<times> error option) \<times> 'w)" where
  "sub_New c params w =
     (case params of
        None \<Rightarrow> Inl NilDereference
      | Some p \<Rightarrow> Inr (returned (Call_Sub (B c) (sub_New_request c p) Sub_zero w)))"

definition sub_Get_request :: "'w Client \<Rightarrow> string \<Rightarrow> SubParams \<Rightarrow> Request" where
  "sub_Get_request c sid params =
     \<lparr>r_method = ''GET'',
      r_path = ''/customers/'' @ SubParams.Customer params @ ''/subscriptions/'' @ sid,
      r_key = Key c,
      r_body = Some (sub_Get_body params)\<rparr>"

definition sub_Get ::
  "'w Client \<Rightarrow> string \<Rightarrow> SubParams option \<Rightarrow> 'w \<Rightarrow> panic + ((Sub option \<times> error option) \<times> 'w)" where
  "sub_Get c sid params w =
     (case params of
        None \<Rightarrow> Inl NilDereference
      | Some p \<Rightarrow> Inr (returned (Call_Sub (B c) (sub_Get_request c sid p) Sub_zero w)))"

definition sub_Update_request :: "'w Client \<Rightarrow> string \<Rightarrow> SubParams \<Rightarrow> Request" where
  "sub_Update_request c sid params =
     \<lparr>r_method = ''POST'',
      r_path = ''/customers/'' @ SubParams.Customer params @ ''/subscriptions/'' @ sid,
      r_key = Key c,
      r_body = Some (sub_Update_body params)\<rparr>"

definition sub_Update ::
  "'w Client \<Rightarrow> string \<Rightarrow> SubParams option \<Rightarrow> 'w \<Rightarrow> panic + ((Sub option \<times> error option) \<times> 'w)" where
  "sub_Update c sid params w =
     (case params of
        None \<Rightarrow> Inl NilDereference
      | Some p \<Rightarrow> Inr (returned (Call_Sub (B c) (sub_Update_request c sid p) Sub_zero w)))"

definition sub_Cancel_request :: "'w Client \<Rightarrow> string \<Rightarrow> SubParams \<Rightarrow> Request" where
  "sub_Cancel_request c sid params =
     \<lparr>r_method = ''DELETE'',
      r_path = ''/customers/'' @ SubParams.Customer params @ ''/subscriptions/'' @ sid,
      r_key = Key c,
      r_body = Some (sub_Cancel_body params)\<rparr>"

definition sub_Cancel ::
  "'w Client \<Rightarrow> string \<Rightarrow> SubParams option \<Rightarrow> 'w \<Rightarrow> panic + (error option \<times> 'w)" where
  "sub_Cancel c sid params w =
     (case params of
        None \<Rightarrow> Inl NilDereference
      | Some p \<Rightarrow> Inr (Call_nil (B c) (sub_Cancel_request c sid p) w))"

section \<open>The plan client's operations (src/plan/client.go)\<close>

text \<open>
  \<open>stripe.PlanParams\<close>, with the fields \<open>src/plan/client.go\<close> reads; \<open>Amount\<close>,
  \<open>IntervalCount\<close> and \<open>TrialPeriod\<close> are \<open>uint64\<close>, \<open>Currency\<close> and \<open>Interval\<close> are string
  types.
\<close>

record PlanParams = Params +
  ID :: string
  Name :: string
  Currency :: string
  Amount :: "64 word"
  Interval :: string
  IntervalCount :: "64 word"
  TrialPeriod :: "64 word"
  Statement :: string

text \<open>The body \<open>Client.New\<close> builds (lines 31 to 51).\<close>

definition plan_New_body :: "PlanParams \<Rightarrow> url_Values" where
  "plan_New_body params =
     (let body = [''id'' \<mapsto> [PlanParams.ID params],
                  ''name'' \<mapsto> [Name params],
                  ''amount'' \<mapsto> [FormatUint (Amount params)],
                  ''currency'' \<mapsto> [Currency params],
                  ''interval'' \<mapsto> [Interval params]];
          body = (if 0 < IntervalCount params
                  then Add ''interval_count'' (FormatUint (IntervalCount params)) body else body);
          body = (if 0 < TrialPeriod params
                  then Add ''trial_period_days'' (FormatUint (TrialPeriod params)) body else body);
          body = (if 0 < length (Statement params)
                  then Add ''statement_description'' (Statement params) body else body)
      in AppendTo params body)"

definition plan_New_request :: "'w Client \<Rightarrow> PlanParams \<Rightarrow> Request" where
  "plan_New_request c params =
     \<lparr>r_method = ''POST'', r_path = ''/plans'', r_key = Key c,
      r_body = Some (plan_New_body params)\<rparr>"

definition plan_New ::
  "'w Client \<Rightarrow> PlanParams option \<Rightarrow> 'w \<Rightarrow> panic + ((Plan option \<times> error option) \<times> 'w)" where
  "plan_New c params w =
     (case params of
        None \<Rightarrow> Inl NilDereference
      | Some p \<Rightarrow> Inr (returned (Call_Plan (B c) (plan_New_request c p) Plan_zero w)))"

text \<open>\<open>Client.Get\<close> (lines 65 to 77): the body stays nil unless \<open>params\<close> is not.\<close>

definition plan_Get_body :: "PlanParams option \<Rightarrow> url_Values option" where
  "plan_Get_body params =
     (case params of
        None \<Rightarrow> None
      | Some p \<Rightarrow> Some (AppendTo p Map.empty))"

definition plan_Get_request :: "'w Client \<Rightarrow> string \<Rightarrow> PlanParams option \<Rightarrow> Request" where
  "plan_Get_request c pid params =
     \<lparr>r_method = ''GET'', r_path = ''/plans/'' @ pid, r_key = Key c,
      r_body = plan_Get_body params\<rparr>"

definition plan_Get ::
  "'w Client \<Rightarrow> string \<Rightarrow> PlanParams option \<Rightarrow> 'w \<Rightarrow> panic + ((Plan option \<times> error option) \<times> 'w)" where
  "plan_Get c pid params w =
     Inr (returned (Call_Plan (B c) (plan_Get_request c pid params) Plan_zero w))"

text \<open>\<open>Client.Update\<close> (lines 85 to 106).\<close>

definition plan_Update_body :: "PlanParams option \<Rightarrow> url_Values option" where
  "plan_Update_body params =
     (case params of
        None \<Rightarrow> None
      | Some p \<Rightarrow>
          (let body = Map.empty;
               body = (if 0 < length (Name p) then Add ''name'' (Name p) body else body);
               body = (if 0 < length (Statement p)
                       then Add ''statement_description'' (Statement p) body else body)
           in Some (AppendTo p body)))"

definition plan_Update_request :: "'w Client \<Rightarrow> string \<Rightarrow> PlanParams option \<Rightarrow> Request" where
  "plan_Update_request c pid params =
     \<lparr>r_method = ''POST'', r_path = ''/plans/'' @ pid, r_key = Key c,
      r_body = plan_Update_body params\<rparr>"

definition plan_Update ::
  "'w Client \<Rightarrow> string \<Rightarrow> PlanParams option \<Rightarrow> 'w \<Rightarrow> panic + ((Plan option \<times> error option) \<times> 'w)" where
  "plan_Update c pid params w =
     Inr (returned (Call_Plan (B c) (plan_Update_request c pid params) Plan_zero w))"

text \<open>\<open>Client.Del\<close> (lines 114 to 116): no params, a nil body and a nil destination.\<close>

definition plan_Del_request :: "'w Client \<Rightarrow> string \<Rightarrow> Request" where
  "plan_Del_request c pid =
     \<lparr>r_method = ''DELETE'', r_path = ''/plans/'' @ pid, r_key = Key c, r_body = None\<rparr>"

definition plan_Del :: "'w Client \<Rightarrow> string \<Rightarrow> 'w \<Rightarrow> panic + (error option \<times> 'w)" where
  "plan_Del c pid w = Inr (Call_nil (B c) (plan_Del_request c pid) w)"

section \<open>The list iterator\<close>

text \<open>
  Modelled from the spec: \<open>stripe.ListParams\<close> and its \<open>AppendTo\<close> are not among the
  sources. The spec's data model gives the paging controls: the cursor bounds (the
  \<open>before\<close> and \<open>after\<close> identifiers), the page size limit (positive when present) and a
  filter set. Each control that is set is added to the body; the body keys are the spec's
  words for the controls.
\<close>

record ListParams =
  After :: string
  Before :: string
  Limit :: nat
  Filters :: "(string \<times> string) list"

definition ListParams_zero :: ListParams where
  "ListParams_zero = \<lparr>After = '''', Before = '''', Limit = 0, Filters = []\<rparr>"

definition ListParams_AppendTo :: "'a ListParams_scheme \<Rightarrow> url_Values \<Rightarrow> url_Values" where
  "ListParams_AppendTo params body =
     (let body = AddAll (Filters params) body;
          body = (if 0 < length (After params) then Add ''after'' (After params) body else body);
          body = (if 0 < length (Before params) then Add ''before'' (Before params) body else body);
          body = (if 0 < Limit params then Add ''limit'' (formatBits (Limit params)) body else body)
      in body)"

text \<open>
  \<open>stripe.SubListParams\<close> embeds \<open>ListParams\<close> and has the \<open>Customer\<close> that
  \<open>sub.Client.List\<close> reads; \<open>stripe.PlanListParams\<close> embeds \<open>ListParams\<close>.
\<close>

record SubListParams = ListParams +
  Customer :: string

type_synonym PlanListParams = ListParams

text \<open>
  The untyped items (\<open>interface{}\<close>) a page holds: the clients store \<open>*stripe.Sub\<close> and
  \<open>*stripe.Plan\<close> values.
\<close>

datatype item = SubItem Sub | PlanItem Plan

fun item_ID :: "item \<Rightarrow> string" where
  "item_ID (SubItem s) = Sub.ID s"
| "item_ID (PlanItem p) = Plan.ID p"

text \<open>The page-fetch function: \<open>(body) -> (items, meta, err)\<close>, run against the backend's state.\<close>

type_synonym 'w Query = "url_Values \<Rightarrow> 'w \<Rightarrow> (item list \<times> ListMeta \<times> error option) \<times> 'w"

text \<open>
  Modelled from the spec: \<open>stripe.Iter\<close>, \<open>stripe.GetIter\<close> and the methods \<open>Next\<close>,
  \<open>Stop\<close> and \<open>Meta\<close> are not among the sources. As the spec's data model says, an
  iterator owns the page-fetch function, the current page's item buffer, the current index
  into it, the last-seen \<open>ListMeta\<close> (nil before the first fetch) and a pending error.
\<close>

record 'w Iter =
  query :: "'w Query"
  qs :: url_Values
  lparams :: ListParams
  buf :: "item list"
  cur :: nat
  meta :: "ListMeta option"
  err :: "error option"

text \<open>
  Modelled from the spec: \<open>stripe.GetIter\<close> is not among the sources. Construction takes
  the optional base \<open>ListParams\<close> (nil means server defaults), the body and the fetch
  function; nothing is fetched yet.
\<close>

definition GetIter :: "ListParams option \<Rightarrow> url_Values option \<Rightarrow> 'w Query \<Rightarrow> 'w Iter" where
  "GetIter params body q =
     \<lparr>query = q,
      qs = (case body of None \<Rightarrow> Map.empty | Some b \<Rightarrow> b),
      lparams = (case params of None \<Rightarrow> ListParams_zero | Some p \<Rightarrow> p),
      buf = [], cur = 0, meta = None, err = None\<rparr>"

text \<open>
  Modelled from the spec: part of \<open>stripe.Iter\<close>, which is not among the sources. More
  pages exist when nothing was fetched yet or the last page's \<open>HasMore\<close> says so.
\<close>

definition more_pages :: "'w Iter \<Rightarrow> bool" where
  "more_pages it = (case meta it of None \<Rightarrow> True | Some m \<Rightarrow> HasMore m)"

text \<open>
  Modelled from the spec: part of \<open>stripe.Iter\<close>, which is not among the sources. The
  updated cursor parameters: the last item's identifier becomes the new \<open>after\<close> cursor.
\<close>

definition advance :: "'w Iter \<Rightarrow> 'w Iter" where
  "advance it =
     (if buf it = [] then it
      else it\<lparr>lparams := (lparams it)\<lparr>After := item_ID (last (buf it))\<rparr>,
              qs := (qs it)(''after'' \<mapsto> [item_ID (last (buf it))])\<rparr>)"

text \<open>
  Modelled from the spec: part of \<open>stripe.Iter\<close>, which is not among the sources. One page
  fetch; a failed fetch records the error and exposes nothing of the page.
\<close>

definition getPage :: "'w Iter \<Rightarrow> 'w \<Rightarrow> 'w Iter \<times> 'w" where
  "getPage it w =
     (let it1 = advance it;
          r = query it1 (qs it1) w
      in case snd (snd (fst r)) of
           Some e \<Rightarrow> (it1\<lparr>err := Some e\<rparr>, snd r)
         | None \<Rightarrow> (it1\<lparr>buf := fst (fst r), cur := 0, meta := Some (fst (snd (fst r)))\<rparr>, snd r))"

text \<open>
  Modelled from the spec: \<open>stripe.Iter.Next\<close> is not among the sources. \<open>Next\<close> returns
  \<open>(item, error)\<close>: the next item, fetching the next page first when the buffer is
  exhausted and more pages exist; after a failed fetch the error, now and
  on every later call; \<open>(nil, nil)\<close> as the end-of-sequence signal when the buffer is
  exhausted and no more pages exist (or the page just fetched is empty).
\<close>

definition Next :: "'w Iter \<Rightarrow> 'w \<Rightarrow> (item option \<times> error option) \<times> 'w Iter \<times> 'w" where
  "Next it w =
     (case err it of
        Some e \<Rightarrow> ((None, Some e), it, w)
      | None \<Rightarrow>
          if cur it < length (buf it)
          then ((Some (buf it ! cur it), None), it\<lparr>cur := cur it + 1\<rparr>, w)
          else if more_pages it
          then (let pg = getPage it w; it1 = fst pg
                in case err it1 of
                     Some e \<Rightarrow> ((None, Some e), it1, snd pg)
                   | None \<Rightarrow>
                       (case buf it1 of
                          [] \<Rightarrow> ((None, None), it1, snd pg)
                        | x # xs \<Rightarrow> ((Some x, None), it1\<lparr>cur := 1\<rparr>, snd pg)))
          else ((None, None), it, w))"

text \<open>
  Modelled from the spec: \<open>stripe.Iter.Stop\<close> and \<open>stripe.Iter.Meta\<close> are not among the
  sources. \<open>Stop\<close> is true when the iterator is exhausted with no more pages or in the
  terminal error state; \<open>Meta\<close> is the metadata of the most recently fetched page.
\<close>

definition Stop :: "'w Iter \<Rightarrow> bool" where
  "Stop it = (err it \<noteq> None \<or> (length (buf it) \<le> cur it \<and> \<not> more_pages it))"

definition Meta :: "'w Iter \<Rightarrow> ListMeta option" where
  "Meta it = meta it"

section \<open>Listing (src/sub/client.go, src/plan/client.go)\<close>

text \<open>\<open>sub.Client.List\<close> (lines 161 to 179) and the fetch function it passes to \<open>GetIter\<close>.\<close>

definition sub_List_request :: "'w Client \<Rightarrow> SubListParams \<Rightarrow> url_Values \<Rightarrow> Request" where
  "sub_List_request c params b =
     \<lparr>r_method = ''GET'',
      r_path = ''/customers/'' @ SubListParams.Customer params @ ''/subscriptions'',
      r_key = Key c,
      r_body = Some b\<rparr>"

definition sub_List_query :: "'w Client \<Rightarrow> SubListParams \<Rightarrow> 'w Query" where
  "sub_List_query c params b w =
     (let r = Call_SubList (B c) (sub_List_request c params b) SubList_zero w;
          list = fst (fst r);
          ret = map SubItem (SubList.Values list)
      in ((ret, ListMeta.truncate list, snd (fst r)), snd r))"

definition sub_List :: "'w Client \<Rightarrow> SubListParams option \<Rightarrow> panic + 'w Iter" where
  "sub_List c params =
     (case params of
        None \<Rightarrow> Inl NilDereference
      | Some p \<Rightarrow>
          (let body = ListParams_AppendTo p Map.empty;
               lp = ListParams.truncate p
           in Inr (GetIter (Some lp) (Some body) (sub_List_query c p))))"

text \<open>\<open>plan.Client.List\<close> (lines 124 to 151): body and list params stay nil unless \<open>params\<close> is not.\<close>

definition plan_List_request :: "'w Client \<Rightarrow> url_Values \<Rightarrow> Request" where
  "plan_List_request c b =
     \<lparr>r_method = ''GET'', r_path = ''/plans'', r_key = Key c, r_body = Some b\<rparr>"

definition plan_List_query :: "'w Client \<Rightarrow> 'w Query" where
  "plan_List_query c b w =
     (let r = Call_planList (B c) (plan_List_request c b) planList_zero w;
          list = fst (fst r);
          ret = map PlanItem (planList.Values list)
      in ((ret, ListMeta.truncate list, snd (fst r)), snd r))"

definition plan_List :: "'w Client \<Rightarrow> PlanListParams option \<Rightarrow> panic + 'w Iter" where
  "plan_List c params =
     (let body = (case params of None \<Rightarrow> None | Some p \<Rightarrow> Some (ListParams_AppendTo p Map.empty));
          lp = params
      in Inr (GetIter lp body (plan_List_query c)))"

text \<open>
  The typed iterators (\<open>sub.Iter\<close> lines 187 to 204, \<open>plan.Iter\<close> lines 159 to 176): \<open>Next\<close>
  passes an error on and otherwise asserts the item's type, which panics on any other
  value, the nil item included.
\<close>

definition sub_Iter_Next ::
  "'w Iter \<Rightarrow> 'w \<Rightarrow> panic + ((Sub option \<times> error option) \<times> 'w Iter \<times> 'w)" where
  "sub_Iter_Next i w =
     (let r = Next i w
      in case snd (fst r) of
           Some e \<Rightarrow> Inr ((None, Some e), snd r)
         | None \<Rightarrow>
             (case fst (fst r) of
                Some (SubItem s) \<Rightarrow> Inr ((Some s, None), snd r)
              | _ \<Rightarrow> Inl TypeAssertion))"

definition sub_Iter_Stop :: "'w Iter \<Rightarrow> bool" where
  "sub_Iter_Stop i = Stop i"

definition sub_Iter_Meta :: "'w Iter \<Rightarrow> ListMeta option" where
  "sub_Iter_Meta i = Meta i"

definition plan_Iter_Next ::
  "'w Iter \<Rightarrow> 'w \<Rightarrow> panic + ((Plan option \<times> error option) \<times> 'w Iter \<times> 'w)" where
  "plan_Iter_Next i w =
     (let r = Next i w
      in case snd (fst r) of
           Some e \<Rightarrow> Inr ((None, Some e), snd r)
         | None \<Rightarrow>
             (case fst (fst r) of
                Some (PlanItem p) \<Rightarrow> Inr ((Some p, None), snd r)
              | _ \<Rightarrow> Inl TypeAssertion))"

definition plan_Iter_Stop :: "'w Iter \<Rightarrow> bool" where
  "plan_Iter_Stop i = Stop i"

definition plan_Iter_Meta :: "'w Iter \<Rightarrow> ListMeta option" where
  "plan_Iter_Meta i = Meta i"

section \<open>Events (event.go)\<close>

text \<open>
  A value of type \<open>interface{}\<close> as JSON decoding leaves it in an event's bag: nil, a
  string, a \<open>map[string]interface{}\<close>, or a value of any other dynamic type \<open>'a\<close>
  (a number, a boolean, a slice). Indexing a map with a missing key (or a nil map) yields
  the zero value, the nil interface.
\<close>

datatype 'a iface = NilV | StrV string | MapV "string \<Rightarrow> 'a iface option" | OtherV 'a

definition map_index :: "(string \<rightharpoonup> 'a iface) \<Rightarrow> string \<Rightarrow> 'a iface" where
  "map_index m k = (case m k of None \<Rightarrow> NilV | Some v \<Rightarrow> v)"

record 'a EventData =
  Obj :: "string \<rightharpoonup> 'a iface"
  Prev :: "string \<rightharpoonup> 'a iface"

record 'a Event =
  ID :: string
  Live :: bool
  Created :: "64 word"
  Data :: "'a EventData option"
  Webhooks :: "64 word"
  Type :: string
  Req :: string

text \<open>
  The loop of \<open>getValue\<close> (lines 44 to 46) over the keys after the first: each step
  asserts that the node is a map and indexes it; the assertion panics on any other value,
  nil included.
\<close>

fun descend :: "'a iface \<Rightarrow> string list \<Rightarrow> panic + 'a iface" where
  "descend node [] = Inr node"
| "descend node (k # ks) =
     (case node of
        MapV m \<Rightarrow> descend (map_index m k) ks
      | _ \<Rightarrow> Inl TypeAssertion)"

text \<open>\<open>getValue\<close> (lines 41 to 53): \<open>keys[0]\<close> panics on an empty slice.\<close>

definition getValue :: "(string \<rightharpoonup> 'a iface) \<Rightarrow> string list \<Rightarrow> panic + string" where
  "getValue m keys =
     (case keys of
        [] \<Rightarrow> Inl IndexOutOfRange
      | k # ks \<Rightarrow>
          (case descend (map_index m k) ks of
             Inl p \<Rightarrow> Inl p
           | Inr node \<Rightarrow>
               (case node of
                  NilV \<Rightarrow> Inr ''''
                | StrV s \<Rightarrow> Inr s
                | _ \<Rightarrow> Inl TypeAssertion)))"

text \<open>\<open>GetObjValue\<close> and \<open>GetPrevValue\<close> (lines 31 to 38); \<open>e.Data\<close> is a pointer.\<close>

definition GetObjValue :: "'a Event \<Rightarrow> string list \<Rightarrow> panic + string" where
  "GetObjValue e keys =
     (case Data e of
        None \<Rightarrow> Inl NilDereference
      | Some d \<Rightarrow> getValue (Obj d) keys)"

definition GetPrevValue :: "'a Event \<Rightarrow> string list \<Rightarrow> panic + string" where
  "GetPrevValue e keys =
     (case Data e of
        None \<Rightarrow> Inl NilDereference
      | Some d \<Rightarrow> getValue (Prev d) keys)"

text \<open>
  The value reached by a full key path, as a specification: none for the empty path, and
  none when an intermediate key is absent or maps to a value that is not a string-keyed
  map.
\<close>

fun path_value :: "(string \<rightharpoonup> 'a iface) \<Rightarrow> string list \<Rightarrow> 'a iface option" where
  "path_value m [] = None"
| "path_value m [k] = Some (map_index m k)"
| "path_value m (k # k' # ks) =
     (case map_index m k of
        MapV m' \<Rightarrow> path_value m' (k' # ks)
      | _ \<Rightarrow> None)"

text \<open>What the lookup owes for a reached value, as a specification.\<close>

fun lookup_result :: "string list \<Rightarrow> 'a iface option \<Rightarrow> panic + string" where
  "lookup_result keys (Some NilV) = Inr ''''"
| "lookup_result keys (Some (StrV s)) = Inr s"
| "lookup_result keys (Some (MapV m)) = Inl TypeAssertion"
| "lookup_result keys (Some (OtherV x)) = Inl TypeAssertion"
| "lookup_result keys None = Inl (if keys = [] then IndexOutOfRange else TypeAssertion)"

section \<open>Reading encoded values\<close>

text \<open>A base-10 decimal string and the number it denotes.\<close>

definition is_digit :: "char \<Rightarrow> bool" where
  "is_digit c = (c \<in> set ''0123456789'')"

definition is_decimal :: "string \<Rightarrow> bool" where
  "is_decimal s = (s \<noteq> [] \<and> list_all is_digit s)"

definition digit_value :: "char \<Rightarrow> nat" where
  "digit_value c = of_char c - 48"

definition decimal_value :: "string \<Rightarrow> nat" where
  "decimal_value s = foldl (\<lambda>a c. 10 * a + digit_value c) 0 s"

text \<open>A decimal integer part, a point, and exactly two decimal digits.\<close>

definition two_decimals :: "string \<Rightarrow> bool" where
  "two_decimals s =
     (case rev s of
        d2 # d1 # p # ip \<Rightarrow> is_digit d2 \<and> is_digit d1 \<and> p = CHR ''.'' \<and> is_decimal (rev ip)
      | _ \<Rightarrow> False)"

text \<open>The body holds the value \<open>v\<close> under the key \<open>k\<close>.\<close>

definition has_value :: "url_Values \<Rightarrow> string \<Rightarrow> string \<Rightarrow> bool" where
  "has_value body k v = (case body k of None \<Rightarrow> False | Some vs \<Rightarrow> v \<in> set vs)"

section \<open>Scenarios\<close>

text \<open>
  A scripted backend: its state is the list of pages still to serve, each the items of the
  page with its has-more flag, or an error. A list call serves the first page left.
\<close>

type_synonym script = "(error + Sub list \<times> bool) list"

definition serve :: "SubList \<Rightarrow> script \<Rightarrow> (SubList \<times> error option) \<times> script" where
  "serve d w =
     (case w of
        [] \<Rightarrow> ((d, None), [])
      | Inl e # rest \<Rightarrow> ((d, Some e), rest)
      | Inr pg # rest \<Rightarrow> ((d\<lparr>HasMore := snd pg, SubList.Values := fst pg\<rparr>, None), rest))"

definition scripted_Backend :: "script Backend" where
  "scripted_Backend =
     \<lparr>Call_Sub = (\<lambda>req d w. ((d, None), w)),
      Call_SubList = (\<lambda>req d w. serve d w),
      Call_Plan = (\<lambda>req d w. ((d, None), w)),
      Call_planList = (\<lambda>req d w. ((d, None), w)),
      Call_nil = (\<lambda>req w. (None, w))\<rparr>"

definition scripted_Client :: "script Client" where
  "scripted_Client = \<lparr>B = scripted_Backend, Key = ''sk_test''\<rparr>"

definition item1 :: Sub where
  "item1 = \<lparr>Sub.ID = ''sub_1''\<rparr>"

definition item2 :: Sub where
  "item2 = \<lparr>Sub.ID = ''sub_2''\<rparr>"

definition item3 :: Sub where
  "item3 = \<lparr>Sub.ID = ''sub_3''\<rparr>"

text \<open>\<open>ListParams{Limit: 2}\<close> for a customer; three items in a page of 2 then a page of 1.\<close>

definition limit2 :: SubListParams where
  "limit2 = \<lparr>After = '''', Before = '''', Limit = 2, Filters = [],
      SubListParams.Customer = ''cus_1''\<rparr>"

definition three_items :: script where
  "three_items = [Inr ([item1, item2], True), Inr ([item3], False)]"

text \<open>The same first page, then a failing fetch.\<close>

definition failing_page2 :: script where
  "failing_page2 = [Inr ([item1, item2], True), Inl (Error ''connection reset'')]"

text \<open>
  \<open>n\<close> successive calls of \<open>Next\<close> on a subscription iterator: what each call returned,
  with what \<open>Stop\<close> says right after it. A panic ends the run.
\<close>

fun sub_Iter_run ::
  "nat \<Rightarrow> 'w Iter \<Rightarrow> 'w \<Rightarrow> (panic + (Sub option \<times> error option) \<times> bool) list" where
  "sub_Iter_run 0 i w = []"
| "sub_Iter_run (Suc n) i w =
     (case sub_Iter_Next i w of
        Inl p \<Rightarrow> [Inl p]
      | Inr r \<Rightarrow> Inr (fst r, sub_Iter_Stop (fst (snd r))) # sub_Iter_run n (fst (snd r)) (snd (snd r)))"

text \<open>
  The optional fields of a \<open>SubParams\<close> (\<open>Token\<close>, \<open>Card\<close>, \<open>Coupon\<close>, \<open>TrialEnd\<close>,
  \<open>Quantity\<close>, \<open>FeePercent\<close>) are all at their zero value and no shared parameter is set.
\<close>

definition sub_optional_zero :: "SubParams \<Rightarrow> bool" where
  "sub_optional_zero p \<longleftrightarrow>
     Extra p = [] \<and> SubParams.Token p = '''' \<and> Card p = None \<and> Coupon p = '''' \<and>
     TrialEnd p = 0 \<and> Quantity p = 0 \<and> FeePercent p = Finite 0 0"

text \<open>Parameters used as examples.\<close>

definition example_params :: SubParams where
  "example_params =
     \<lparr>Extra = [], SubParams.Customer = ''cus_1'', Plan = ''gold'', Coupon = '''',
      SubParams.Token = '''',
      TrialEnd = 0, Card = None, Quantity = 0, FeePercent = Finite 0 0,
      NoProrate = False, EndCancel = False\<rparr>"

definition example_card :: CardParams where
  "example_card =
     \<lparr>CardParams.Token = ''tok_card'',
      Details = (\<lambda>creating. [(''card[number]'', ''4242424242424242'')])\<rparr>"

definition example_plan_params :: PlanParams where
  "example_plan_params =
     \<lparr>Extra = [], PlanParams.ID = ''gold'', Name = ''Gold'', Currency = ''usd'', Amount = 2000,
      Interval = ''month'', IntervalCount = 3, TrialPeriod = 14, Statement = ''''\<rparr>"

definition example_full_params :: SubParams where
  "example_full_params =
     example_params\<lparr>TrialEnd := 1400000000, Quantity := 2, FeePercent := Finite 5 (- 1),
                    NoProrate := True, EndCancel := True\<rparr>"

text \<open>A fee percentage of positive infinity, which a \<open>float64\<close> can hold.\<close>

definition example_inf_params :: SubParams where
  "example_inf_params = example_params\<lparr>FeePercent := PosInf\<rparr>"

text \<open>
  The iterator \<open>sub.Client.List\<close> returns for \<open>limit2\<close>, and its state once the first page
  of \<open>failing_page2\<close> has been delivered.
\<close>

definition sub_iter0 :: "script Iter" where
  "sub_iter0 =
     GetIter (Some (ListParams.truncate limit2)) (Some (ListParams_AppendTo limit2 Map.empty))
       (sub_List_query scripted_Client limit2)"

definition after_page1 :: "script Iter" where
  "after_page1 =
     sub_iter0\<lparr>buf := [SubItem item1, SubItem item2], cur := 2,
               meta := Some \<lparr>TotalCount = 0, HasMore = True\<rparr>\<rparr>"

text \<open>An event whose object bag nests a card under a charge.\<close>

definition example_event :: "bool Event" where
  "example_event =
     \<lparr>Event.ID = ''evt_1'', Live = False, Created = 1400000000,
      Data = Some \<lparr>Obj = [''id'' \<mapsto> StrV ''ch_1'',
                          ''paid'' \<mapsto> OtherV True,
                          ''customer'' \<mapsto> NilV,
                          ''card'' \<mapsto> MapV [''last4'' \<mapsto> StrV ''4242'']],
                   Prev = Map.empty\<rparr>,
      Webhooks = 0, Type = ''charge.succeeded'', Req = ''''\<rparr>"

text \<open>A backend whose every call fails and decodes nothing.\<close>

definition failing_Backend :: "unit Backend" where
  "failing_Backend =
     \<lparr>Call_Sub = (\<lambda>req d w. ((d, Some (Error ''card_declined'')), w)),
      Call_SubList = (\<lambda>req d w. ((d, Some (Error ''card_declined'')), w)),
      Call_Plan = (\<lambda>req d w. ((d, Some (Error ''card_declined'')), w)),
      Call_planList = (\<lambda>req d w. ((d, Some (Error ''card_declined'')), w)),
      Call_nil = (\<lambda>req w. (Some (Error ''card_declined''), w))\<rparr>"

definition failing_Client :: "unit Client" where
  "failing_Client = \<lparr>B = failing_Backend, Key = ''sk_test''\<rparr>"

text \<open>
  A backend that decodes an identifier into a subscription or plan destination and
  reports an error all the same (a partially decoded response).
\<close>

definition decoding_Backend :: "unit Backend" where
  "decoding_Backend =
     \<lparr>Call_Sub = (\<lambda>req d w. ((d\<lparr>Sub.ID := ''sub_9''\<rparr>, Some (Error ''unexpected end of JSON'')), w)),
      Call_SubList = (\<lambda>req d w. ((d, None), w)),
      Call_Plan = (\<lambda>req d w. ((d\<lparr>Plan.ID := ''gold''\<rparr>, Some (Error ''unexpected end of JSON'')), w)),
      Call_planList = (\<lambda>req d w. ((d, None), w)),
      Call_nil = (\<lambda>req w. (None, w))\<rparr>"

definition decoding_Client :: "unit Client" where
  "decoding_Client = \<lparr>B = decoding_Backend, Key = ''sk_test''\<rparr>"

text \<open>
  An empty request body: the nil pointer (no body at all), or a body that holds no key.
\<close>

definition empty_body :: "url_Values option \<Rightarrow> bool" where
  "empty_body b = (case b of None \<Rightarrow> True | Some m \<Rightarrow> m = Map.empty)"

section \<open>Facts about bodies\<close>

lemma Add_same: "Add k v body k = Some ((case body k of None \<Rightarrow> [] | Some vs \<Rightarrow> vs) @ [v])"
  by (simp add: Add_def)

lemma Add_other: "k' \<noteq> k \<Longrightarrow> Add k v body k' = body k'"
  by (simp add: Add_def)

lemma dom_Add: "dom (Add k v body) = insert k (dom body)"
  by (simp add: Add_def)

lemma AddAll_Nil: "AddAll [] body = body"
  by (simp add: AddAll_def)

lemma AddAll_Cons: "AddAll (kv # kvs) body = AddAll kvs (Add (fst kv) (snd kv) body)"
  by (simp add: AddAll_def)

lemma dom_AddAll: "dom (AddAll kvs body) = fst ` set kvs \<union> dom body"
  by (induction kvs arbitrary: body) (auto simp: AddAll_Nil AddAll_Cons dom_Add)

lemma AddAll_untouched: "k \<notin> fst ` set kvs \<Longrightarrow> AddAll kvs body k = body k"
  by (induction kvs arbitrary: body) (auto simp: AddAll_Nil AddAll_Cons Add_other)

lemma AddAll_extends:
  "body k = Some vs \<Longrightarrow> \<exists>rest. AddAll kvs body k = Some (vs @ rest)"
proof (induction kvs arbitrary: body vs)
  case Nil
  then show ?case by (simp add: AddAll_Nil)
next
  case (Cons kv kvs)
  show ?case
  proof (cases "fst kv = k")
    case True
    have "\<exists>rest. AddAll kvs (Add (fst kv) (snd kv) body) k = Some ((vs @ [snd kv]) @ rest)"
      by (rule Cons.IH) (use True Cons.prems in \<open>auto simp: Add_def\<close>)
    then show ?thesis
      by (auto simp: AddAll_Cons)
  next
    case False
    have "\<exists>rest. AddAll kvs (Add (fst kv) (snd kv) body) k = Some (vs @ rest)"
      by (rule Cons.IH) (use False Cons.prems in \<open>auto simp: Add_def\<close>)
    then show ?thesis
      by (simp add: AddAll_Cons)
  qed
qed


section \<open>The encoder: optional fields and the card token\<close>

text \<open>
  Claim C2. When the optional fields \<open>Token\<close>, \<open>Card\<close>, \<open>Coupon\<close>, \<open>TrialEnd\<close>,
  \<open>Quantity\<close> and \<open>FeePercent\<close> of a \<open>SubParams\<close> are at their zero value and no shared
  parameter is set, the body \<open>New\<close> builds has exactly the key \<open>plan\<close>; when moreover only
  \<open>Plan\<close> is set, the body \<open>Update\<close> builds has exactly the key \<open>plan\<close>.
\<close>

theorem C2_zero_optionals_only_plan:
  "(sub_optional_zero p \<longrightarrow>
      dom (sub_New_body p) = {''plan''} \<and> sub_New_body p ''plan'' = Some [Plan p]) \<and>
   (sub_optional_zero p \<and> Plan p \<noteq> '''' \<and> \<not> NoProrate p \<longrightarrow>
      dom (sub_Update_body p) = {''plan''} \<and> sub_Update_body p ''plan'' = Some [Plan p])"
  by (auto simp: sub_optional_zero_def sub_New_body_def sub_Update_body_def AppendTo_def
      AddAll_Nil Add_def)

theorem C2_zero_optionals_only_plan_witness:
  "sub_optional_zero example_params \<and> Plan example_params \<noteq> '''' \<and> \<not> NoProrate example_params \<and>
   dom (sub_New_body example_params) = {''plan''} \<and>
   sub_New_body example_params ''plan'' = Some [''gold''] \<and>
   dom (sub_Update_body example_params) = {''plan''} \<and>
   sub_Update_body example_params ''plan'' = Some [''gold'']"
proof -
  have h: "sub_optional_zero example_params"
    by (simp add: sub_optional_zero_def example_params_def)
  have g: "Plan example_params = ''gold''" "\<not> NoProrate example_params"
    by (simp_all add: example_params_def)
  from C2_zero_optionals_only_plan [of example_params] h g show ?thesis
    by simp
qed

text \<open>Without a token, a card's details do reach the body.\<close>

lemma card_details_reach_body:
  "sub_New_body (example_params\<lparr>Card := Some example_card\<rparr>) ''card[number]''
     = Some [''4242424242424242'']"
  by (simp add: sub_New_body_def example_params_def example_card_def AppendDetails_def
      AddAll_def Add_def AppendTo_def)

text \<open>
  Claim C3. With a non-empty \<open>Token\<close>, \<open>New\<close> and \<open>Update\<close> build the body they build for
  a nil \<open>Card\<close>, whatever \<open>Card\<close> is: the card's own fields are not expanded. Under the key
  \<open>card\<close> the body holds the token and nothing else (the shared parameters left aside,
  which are added after it).
\<close>

theorem C3_token_preferred:
  assumes "SubParams.Token p \<noteq> ''''"
  shows "sub_New_body (p\<lparr>Card := c\<rparr>) = sub_New_body (p\<lparr>Card := None\<rparr>) \<and>
         sub_Update_body (p\<lparr>Card := c\<rparr>) = sub_Update_body (p\<lparr>Card := None\<rparr>) \<and>
         (''card'' \<notin> fst ` set (Extra p) \<longrightarrow>
            sub_New_body p ''card'' = Some [SubParams.Token p] \<and>
            sub_Update_body p ''card'' = Some [SubParams.Token p])"
proof -
  have a: "sub_New_body (p\<lparr>Card := c\<rparr>) = sub_New_body (p\<lparr>Card := None\<rparr>)"
    using assms by (simp add: sub_New_body_def AppendTo_def Let_def)
  have b: "sub_Update_body (p\<lparr>Card := c\<rparr>) = sub_Update_body (p\<lparr>Card := None\<rparr>)"
    using assms by (simp add: sub_Update_body_def AppendTo_def Let_def)
  have c: "sub_New_body p ''card'' = Some [SubParams.Token p]"
    if "''card'' \<notin> fst ` set (Extra p)"
    using assms that
    by (simp add: sub_New_body_def AppendTo_def AddAll_untouched Add_def Let_def)
  have d: "sub_Update_body p ''card'' = Some [SubParams.Token p]"
    if "''card'' \<notin> fst ` set (Extra p)"
    using assms that
    by (simp add: sub_Update_body_def AppendTo_def AddAll_untouched Add_def Let_def)
  from a b c d show ?thesis by blast
qed

theorem C3_token_preferred_witness:
  "SubParams.Token (example_params\<lparr>SubParams.Token := ''tok_1''\<rparr>) \<noteq> '''' \<and>
   ''card'' \<notin> fst ` set (Extra (example_params\<lparr>SubParams.Token := ''tok_1''\<rparr>)) \<and>
   sub_New_body (example_params\<lparr>SubParams.Token := ''tok_1'', Card := Some example_card\<rparr>)
     = sub_New_body (example_params\<lparr>SubParams.Token := ''tok_1'', Card := None\<rparr>) \<and>
   sub_Update_body (example_params\<lparr>SubParams.Token := ''tok_1'', Card := Some example_card\<rparr>)
     = sub_Update_body (example_params\<lparr>SubParams.Token := ''tok_1'', Card := None\<rparr>) \<and>
   sub_New_body (example_params\<lparr>SubParams.Token := ''tok_1''\<rparr>) ''card'' = Some [''tok_1''] \<and>
   sub_Update_body (example_params\<lparr>SubParams.Token := ''tok_1''\<rparr>) ''card'' = Some [''tok_1'']"
proof -
  have h: "SubParams.Token (example_params\<lparr>SubParams.Token := ''tok_1''\<rparr>) \<noteq> ''''"
    by simp
  have e: "''card'' \<notin> fst ` set (Extra (example_params\<lparr>SubParams.Token := ''tok_1''\<rparr>))"
    by (simp add: example_params_def)
  from C3_token_preferred [OF h, of "Some example_card"] h e show ?thesis
    by simp
qed


section \<open>Numeric encoding\<close>

lemma has_value_Add:
  "has_value (Add k' v' body) k v \<longleftrightarrow> (k' = k \<and> v' = v) \<or> has_value body k v"
  by (auto simp: has_value_def Add_def split: option.splits)

lemma has_value_AddAll:
  "has_value (AddAll kvs body) k v \<longleftrightarrow> (k, v) \<in> set kvs \<or> has_value body k v"
proof (induction kvs arbitrary: body)
  case Nil
  show ?case by (simp add: AddAll_Nil)
next
  case (Cons kv kvs)
  have "has_value (AddAll (kv # kvs) body) k v
          \<longleftrightarrow> (k, v) \<in> set kvs \<or> has_value (Add (fst kv) (snd kv) body) k v"
    by (simp only: AddAll_Cons Cons.IH)
  also have "\<dots> \<longleftrightarrow> (k, v) \<in> set kvs \<or> (fst kv = k \<and> snd kv = v) \<or> has_value body k v"
    by (simp only: has_value_Add)
  also have "\<dots> \<longleftrightarrow> (k, v) \<in> set (kv # kvs) \<or> has_value body k v"
    by (cases kv) auto
  finally show ?case .
qed


lemma has_value_AppendTo:
  "has_value (AppendTo p body) k v \<longleftrightarrow> (k, v) \<in> set (Extra p) \<or> has_value body k v"
  by (simp add: AppendTo_def has_value_AddAll)

lemma has_value_AppendDetails:
  "has_value (AppendDetails cp body b) k v \<longleftrightarrow> (k, v) \<in> set (Details cp b) \<or> has_value body k v"
  by (simp add: AppendDetails_def has_value_AddAll)

lemma has_value_upd:
  "has_value (body(k' \<mapsto> vs)) k v \<longleftrightarrow> (if k' = k then v \<in> set vs else has_value body k v)"
  by (simp add: has_value_def)

lemma has_value_empty: "\<not> has_value Map.empty k v"
  by (simp add: has_value_def)

lemmas has_value_simps =
  has_value_Add has_value_AppendTo has_value_AppendDetails has_value_upd has_value_empty

lemma digit_table:
  "list_all (\<lambda>d. is_digit (digit d) \<and> digit_value (digit d) = d) [0..<10]"
  by code_simp

lemma digit_ok: "d < 10 \<Longrightarrow> is_digit (digit d) \<and> digit_value (digit d) = d"
  using digit_table by (simp add: list_all_iff)

lemma is_digit_digit: "d < 10 \<Longrightarrow> is_digit (digit d)"
  by (simp add: digit_ok)

lemma digit_value_digit: "d < 10 \<Longrightarrow> digit_value (digit d) = d"
  by (simp add: digit_ok)

lemma formatBits_digits: "list_all is_digit (formatBits n)"
proof (induction n rule: formatBits.induct)
  case (1 n)
  show ?case
  proof (cases "n < 10")
    case True
    then show ?thesis
      by (simp add: formatBits.simps [of n] is_digit_digit)
  next
    case False
    with "1" have "list_all is_digit (formatBits (n div 10))" by simp
    then show ?thesis
      using False by (simp add: formatBits.simps [of n] is_digit_digit)
  qed
qed

lemma formatBits_nonempty: "formatBits n \<noteq> []"
  by (subst formatBits.simps) simp

lemma is_decimal_formatBits: "is_decimal (formatBits n)"
  by (simp add: is_decimal_def formatBits_nonempty formatBits_digits)

lemma decimal_value_snoc: "decimal_value (s @ [c]) = 10 * decimal_value s + digit_value c"
  by (simp add: decimal_value_def)

lemma decimal_value_formatBits: "decimal_value (formatBits n) = n"
proof (induction n rule: formatBits.induct)
  case (1 n)
  show ?case
  proof (cases "n < 10")
    case True
    then show ?thesis
      by (simp add: formatBits.simps [of n] decimal_value_def digit_value_digit)
  next
    case False
    with "1" have "decimal_value (formatBits (n div 10)) = n div 10" by simp
    then show ?thesis
      using False by (simp add: formatBits.simps [of n] decimal_value_snoc digit_value_digit)
  qed
qed

lemma FormatUint_decimal: "is_decimal (FormatUint u) \<and> decimal_value (FormatUint u) = unat u"
  by (simp add: FormatUint_def is_decimal_formatBits decimal_value_formatBits)

lemma FormatInt_decimal:
  "0 < sint i \<Longrightarrow> is_decimal (FormatInt i) \<and> int (decimal_value (FormatInt i)) = sint i"
  by (simp add: FormatInt_def is_decimal_formatBits decimal_value_formatBits)

lemma fracDigits_2: "fracDigits n 2 = [digit (n div 10 mod 10), digit (n mod 10)]"
  by (simp add: fracDigits_def numeral_2_eq_2)

lemma FormatFloat_f_two_decimals: "0 \<le> m \<Longrightarrow> two_decimals (FormatFloat_f (Finite m e) 2)"
  by (simp add: two_decimals_def fracDigits_2 Let_def is_digit_digit is_decimal_formatBits)

text \<open>Some formatted values.\<close>

lemma Format_examples:
  "FormatUint 2000 = ''2000''"
  "FormatInt 1400000000 = ''1400000000''"
  "FormatFloat_f (Finite 5 (- 1)) 2 = ''2.50''"
  "FormatFloat_f (Finite 1 (- 3)) 2 = ''0.12''"
  "FormatFloat_f (Finite 3 (- 3)) 2 = ''0.38''"
  "FormatFloat_f (Finite 1 (- 10)) 2 = ''0.00''"
  "FormatFloat_f (Finite 6004799503160661 (- 49)) 2 = ''10.67''"
  by (simp_all add: FormatUint_def FormatInt_def roundScaled_def fracDigits_2 Let_def
      formatBits.simps digit_def)

text \<open>
  Claim C7, amended. Wherever a client encodes an integer parameter (\<open>TrialEnd\<close>,
  \<open>Quantity\<close>, \<open>Amount\<close>, \<open>IntervalCount\<close>, \<open>TrialPeriod\<close>) the body holds its base-10
  decimal string, which reads back as the number; \<open>prorate\<close> is the literal \<open>false\<close> and
  \<open>at_period_end\<close> the literal \<open>true\<close>; and a finite positive \<open>FeePercent\<close> is written
  with an integer part, a point and exactly two decimal digits.
\<close>

theorem C7_numeric_encoding:
  "(0 < sint (TrialEnd p) \<longrightarrow>
      has_value (sub_New_body p) ''trial_end'' (FormatInt (TrialEnd p)) \<and>
      has_value (sub_Update_body p) ''trial_end'' (FormatInt (TrialEnd p)) \<and>
      is_decimal (FormatInt (TrialEnd p)) \<and>
      int (decimal_value (FormatInt (TrialEnd p))) = sint (TrialEnd p)) \<and>
   (0 < Quantity p \<longrightarrow>
      has_value (sub_New_body p) ''quantity'' (FormatUint (Quantity p)) \<and>
      has_value (sub_Update_body p) ''quantity'' (FormatUint (Quantity p))) \<and>
   has_value (plan_New_body q) ''amount'' (FormatUint (Amount q)) \<and>
   (0 < IntervalCount q \<longrightarrow>
      has_value (plan_New_body q) ''interval_count'' (FormatUint (IntervalCount q))) \<and>
   (0 < TrialPeriod q \<longrightarrow>
      has_value (plan_New_body q) ''trial_period_days'' (FormatUint (TrialPeriod q))) \<and>
   is_decimal (FormatUint u) \<and> decimal_value (FormatUint u) = unat u \<and>
   (NoProrate p \<longrightarrow> has_value (sub_Update_body p) ''prorate'' ''false'') \<and>
   (EndCancel p \<longrightarrow> has_value (sub_Cancel_body p) ''at_period_end'' ''true'') \<and>
   (FeePercent p = Finite m e \<and> 0 < m \<longrightarrow>
      has_value (sub_New_body p) ''application_fee_percent'' (FormatFloat_f (FeePercent p) 2) \<and>
      has_value (sub_Update_body p) ''application_fee_percent'' (FormatFloat_f (FeePercent p) 2) \<and>
      two_decimals (FormatFloat_f (FeePercent p) 2))"
proof -
  have t: "has_value (sub_New_body p) ''trial_end'' (FormatInt (TrialEnd p)) \<and>
           has_value (sub_Update_body p) ''trial_end'' (FormatInt (TrialEnd p))"
    if "0 < sint (TrialEnd p)"
    using that by (simp add: sub_New_body_def sub_Update_body_def Let_def has_value_simps split: option.split)
  have qn: "has_value (sub_New_body p) ''quantity'' (FormatUint (Quantity p)) \<and>
           has_value (sub_Update_body p) ''quantity'' (FormatUint (Quantity p))"
    if "0 < Quantity p"
    using that by (simp add: sub_New_body_def sub_Update_body_def Let_def has_value_simps split: option.split)
  have a: "has_value (plan_New_body q) ''amount'' (FormatUint (Amount q))"
    by (simp add: plan_New_body_def Let_def has_value_simps)
  have ic: "has_value (plan_New_body q) ''interval_count'' (FormatUint (IntervalCount q))"
    if "0 < IntervalCount q"
    using that by (simp add: plan_New_body_def Let_def has_value_simps)
  have tp: "has_value (plan_New_body q) ''trial_period_days'' (FormatUint (TrialPeriod q))"
    if "0 < TrialPeriod q"
    using that by (simp add: plan_New_body_def Let_def has_value_simps)
  have np: "has_value (sub_Update_body p) ''prorate'' ''false''" if "NoProrate p"
    using that by (simp add: sub_Update_body_def Let_def has_value_simps FormatBool_def split: option.split)
  have ec: "has_value (sub_Cancel_body p) ''at_period_end'' ''true''" if "EndCancel p"
    using that by (simp add: sub_Cancel_body_def Let_def has_value_simps FormatBool_def)
  have f: "has_value (sub_New_body p) ''application_fee_percent'' (FormatFloat_f (FeePercent p) 2) \<and>
           has_value (sub_Update_body p) ''application_fee_percent'' (FormatFloat_f (FeePercent p) 2) \<and>
           two_decimals (FormatFloat_f (FeePercent p) 2)"
    if "FeePercent p = Finite m e" "0 < m"
    using that FormatFloat_f_two_decimals [of m e]
    by (simp add: sub_New_body_def sub_Update_body_def Let_def has_value_simps split: option.split del: FormatFloat_f.simps)
  from t qn a ic tp np ec f FormatInt_decimal [of "TrialEnd p"] FormatUint_decimal [of u]
  show ?thesis by blast
qed

theorem C7_numeric_encoding_witness:
  "0 < sint (TrialEnd example_full_params) \<and> 0 < Quantity example_full_params \<and>
   0 < IntervalCount example_plan_params \<and> 0 < TrialPeriod example_plan_params \<and>
   NoProrate example_full_params \<and> EndCancel example_full_params \<and>
   FeePercent example_full_params = Finite 5 (- 1) \<and> (0::int) < 5 \<and>
   has_value (sub_New_body example_full_params) ''trial_end'' ''1400000000'' \<and>
   has_value (sub_Update_body example_full_params) ''trial_end'' ''1400000000'' \<and>
   has_value (sub_New_body example_full_params) ''quantity'' ''2'' \<and>
   has_value (sub_Update_body example_full_params) ''quantity'' ''2'' \<and>
   has_value (plan_New_body example_plan_params) ''amount'' ''2000'' \<and>
   has_value (plan_New_body example_plan_params) ''interval_count'' ''3'' \<and>
   has_value (plan_New_body example_plan_params) ''trial_period_days'' ''14'' \<and>
   has_value (sub_Update_body example_full_params) ''prorate'' ''false'' \<and>
   has_value (sub_Cancel_body example_full_params) ''at_period_end'' ''true'' \<and>
   has_value (sub_New_body example_full_params) ''application_fee_percent'' ''2.50'' \<and>
   has_value (sub_Update_body example_full_params) ''application_fee_percent'' ''2.50'' \<and>
   two_decimals ''2.50''"
proof -
  have h: "0 < sint (TrialEnd example_full_params)" "0 < Quantity example_full_params"
    "0 < IntervalCount example_plan_params" "0 < TrialPeriod example_plan_params"
    "NoProrate example_full_params" "EndCancel example_full_params"
    "FeePercent example_full_params = Finite 5 (- 1)"
    by (simp_all add: example_full_params_def example_params_def example_plan_params_def)
  have v: "FormatInt (TrialEnd example_full_params) = ''1400000000''"
    "FormatUint (Quantity example_full_params) = ''2''"
    "FormatUint (Amount example_plan_params) = ''2000''"
    "FormatUint (IntervalCount example_plan_params) = ''3''"
    "FormatUint (TrialPeriod example_plan_params) = ''14''"
    "FormatFloat_f (FeePercent example_full_params) 2 = ''2.50''"
    by (simp_all add: example_full_params_def example_params_def example_plan_params_def
        FormatUint_def FormatInt_def roundScaled_def fracDigits_2 Let_def formatBits.simps
        digit_def)
  from C7_numeric_encoding [of example_full_params example_plan_params 2000 5 "- 1"] h
  show ?thesis
    by (simp add: v Format_examples del: FormatFloat_f.simps)
qed

text \<open>
  As stated, claim C7 fails for the fee percentage: positive infinity passes the test
  \<open>FeePercent > 0\<close> and is written as \<open>+Inf\<close>, which has no decimal digits.
\<close>

theorem C7_infinite_fee_counterexample:
  "sub_New_body example_inf_params ''application_fee_percent'' = Some [''+Inf''] \<and>
   sub_Update_body example_inf_params ''application_fee_percent'' = Some [''+Inf''] \<and>
   \<not> two_decimals ''+Inf''"
  by (simp add: sub_New_body_def sub_Update_body_def example_inf_params_def example_params_def
      AppendTo_def AddAll_Nil Add_def two_decimals_def is_digit_def)


section \<open>Requests and results of the operations\<close>

text \<open>
  Each operation makes one call, with the request its \<open>_request\<close> function builds; a list
  iterator's fetch function makes one call per page.
\<close>

lemma operations_call_once:
  "sub_New c (Some p) w = Inr (returned (Call_Sub (B c) (sub_New_request c p) Sub_zero w))"
  "sub_Get c sid (Some p) w = Inr (returned (Call_Sub (B c) (sub_Get_request c sid p) Sub_zero w))"
  "sub_Update c sid (Some p) w
     = Inr (returned (Call_Sub (B c) (sub_Update_request c sid p) Sub_zero w))"
  "sub_Cancel c sid (Some p) w = Inr (Call_nil (B c) (sub_Cancel_request c sid p) w)"
  "plan_New c (Some q) w = Inr (returned (Call_Plan (B c) (plan_New_request c q) Plan_zero w))"
  "plan_Get c pid qo w = Inr (returned (Call_Plan (B c) (plan_Get_request c pid qo) Plan_zero w))"
  "plan_Update c pid qo w
     = Inr (returned (Call_Plan (B c) (plan_Update_request c pid qo) Plan_zero w))"
  "plan_Del c pid w = Inr (Call_nil (B c) (plan_Del_request c pid) w)"
  "snd (sub_List_query c lp b w)
     = snd (Call_SubList (B c) (sub_List_request c lp b) SubList_zero w)"
  "snd (plan_List_query c b w)
     = snd (Call_planList (B c) (plan_List_request c b) planList_zero w)"
  by (simp_all add: sub_New_def sub_Get_def sub_Update_def sub_Cancel_def plan_New_def
      plan_Get_def plan_Update_def plan_Del_def sub_List_query_def plan_List_query_def Let_def)


text \<open>
  Claim C6. Whenever \<open>New\<close>, \<open>Get\<close>, \<open>Update\<close>, \<open>Cancel\<close> or \<open>Del\<close> returns, the error it
  returns is the error \<open>Backend.Call\<close> returned for the operation's request, unchanged
  (nil exactly when the backend's is). The subscription operations and \<open>plan.New\<close> do not
  return for nil params: they panic before any call.
\<close>

theorem C6_error_verbatim:
  "(\<exists>s w'. sub_New c (Some p) w
       = Inr ((s, snd (fst (Call_Sub (B c) (sub_New_request c p) Sub_zero w))), w')) \<and>
   (\<exists>s w'. sub_Get c sid (Some p) w
       = Inr ((s, snd (fst (Call_Sub (B c) (sub_Get_request c sid p) Sub_zero w))), w')) \<and>
   (\<exists>s w'. sub_Update c sid (Some p) w
       = Inr ((s, snd (fst (Call_Sub (B c) (sub_Update_request c sid p) Sub_zero w))), w')) \<and>
   (\<exists>w'. sub_Cancel c sid (Some p) w
       = Inr (fst (Call_nil (B c) (sub_Cancel_request c sid p) w), w')) \<and>
   (\<exists>s w'. plan_New c (Some q) w
       = Inr ((s, snd (fst (Call_Plan (B c) (plan_New_request c q) Plan_zero w))), w')) \<and>
   (\<exists>s w'. plan_Get c pid qo w
       = Inr ((s, snd (fst (Call_Plan (B c) (plan_Get_request c pid qo) Plan_zero w))), w')) \<and>
   (\<exists>s w'. plan_Update c pid qo w
       = Inr ((s, snd (fst (Call_Plan (B c) (plan_Update_request c pid qo) Plan_zero w))), w')) \<and>
   (\<exists>w'. plan_Del c pid w
       = Inr (fst (Call_nil (B c) (plan_Del_request c pid) w), w')) \<and>
   sub_New c None w = Inl NilDereference \<and>
   sub_Get c sid None w = Inl NilDereference \<and>
   sub_Update c sid None w = Inl NilDereference \<and>
   sub_Cancel c sid None w = Inl NilDereference \<and>
   plan_New c None w = Inl NilDereference"
  by (simp add: sub_New_def sub_Get_def sub_Update_def sub_Cancel_def plan_New_def plan_Get_def
      plan_Update_def plan_Del_def returned_def prod_eq_iff)


text \<open>
  With an error, the caller still holds the pointer: to the zero value when the backend
  decoded nothing, to the partially decoded struct when it decoded something.
\<close>

lemma decoding_backend_results:
  "sub_Get decoding_Client ''sub_9'' (Some example_params) ()
     = Inr ((Some \<lparr>Sub.ID = ''sub_9''\<rparr>, Some (Error ''unexpected end of JSON'')), ())"
  "sub_New decoding_Client (Some example_params) ()
     = Inr ((Some \<lparr>Sub.ID = ''sub_9''\<rparr>, Some (Error ''unexpected end of JSON'')), ())"
  "plan_Update decoding_Client ''gold'' None ()
     = Inr ((Some \<lparr>Plan.ID = ''gold''\<rparr>, Some (Error ''unexpected end of JSON'')), ())"
  by (simp_all add: sub_Get_def sub_New_def plan_Update_def decoding_Client_def
      decoding_Backend_def returned_def Sub_zero_def Plan_zero_def)

text \<open>A failing call still leaves the caller with the pointer and the backend's error.\<close>

lemma failing_backend_results:
  "sub_Get failing_Client ''sub_1'' (Some example_params) ()
     = Inr ((Some Sub_zero, Some (Error ''card_declined'')), ())"
  "plan_Get failing_Client ''gold'' None ()
     = Inr ((Some Plan_zero, Some (Error ''card_declined'')), ())"
  "sub_Cancel failing_Client ''sub_1'' (Some example_params) ()
     = Inr (Some (Error ''card_declined''), ())"
  by (simp_all add: sub_Get_def plan_Get_def sub_Cancel_def failing_Client_def
      failing_Backend_def returned_def)

lemma plan_List_nil_first_fetch:
  "snd (snd (Next (GetIter None None (plan_List_query c)) w))
     = snd (Call_planList (B c) (plan_List_request c Map.empty) planList_zero w)"
  by (simp add: Next_def GetIter_def more_pages_def getPage_def advance_def plan_List_query_def
      Let_def split: option.split list.split)

text \<open>
  Claim C4, amended. \<open>Get\<close>, \<open>Update\<close> and \<open>List\<close> of the plan client are well-defined for
  nil params and build an empty request body: \<open>Get\<close> and \<open>Update\<close> make their call with
  the body left nil, and the iterator \<open>List\<close> returns starts from the zero list params and
  makes its first fetch with a body that holds no key. \<open>Del\<close> takes no params and sends no
  body. The operations that read required fields from \<open>params\<close> (\<open>plan.New\<close> and every
  operation of the subscription client) are defined for non-nil params, and for those only.
\<close>

theorem C4_nil_params_plan:
  "plan_Get c pid None w
     = Inr (returned (Call_Plan (B c) (plan_Get_request c pid None) Plan_zero w)) \<and>
   empty_body (r_body (plan_Get_request c pid None)) \<and>
   plan_Update c pid None w
     = Inr (returned (Call_Plan (B c) (plan_Update_request c pid None) Plan_zero w)) \<and>
   empty_body (r_body (plan_Update_request c pid None)) \<and>
   (\<exists>i. plan_List c None = Inr i \<and> qs i = Map.empty \<and> lparams i = ListParams_zero \<and>
        \<not> plan_Iter_Stop i \<and>
        snd (snd (Next i w))
          = snd (Call_planList (B c) (plan_List_request c Map.empty) planList_zero w)) \<and>
   empty_body (r_body (plan_List_request c Map.empty)) \<and>
   plan_Del c pid w = Inr (Call_nil (B c) (plan_Del_request c pid) w) \<and>
   empty_body (r_body (plan_Del_request c pid)) \<and>
   (\<exists>r. plan_New c (Some q) w = Inr r) \<and> plan_New c None w = Inl NilDereference \<and>
   (\<exists>r. sub_New c (Some p) w = Inr r) \<and> sub_New c None w = Inl NilDereference \<and>
   (\<exists>r. sub_Get c sid (Some p) w = Inr r) \<and> sub_Get c sid None w = Inl NilDereference \<and>
   (\<exists>r. sub_Update c sid (Some p) w = Inr r) \<and> sub_Update c sid None w = Inl NilDereference \<and>
   (\<exists>r. sub_Cancel c sid (Some p) w = Inr r) \<and> sub_Cancel c sid None w = Inl NilDereference \<and>
   (\<exists>i. sub_List c (Some lp) = Inr i) \<and> sub_List c None = Inl NilDereference"
proof -
  have l: "plan_List c None = Inr (GetIter None None (plan_List_query c))"
    by (simp add: plan_List_def)
  have g: "qs (GetIter None None (plan_List_query c)) = Map.empty \<and>
           lparams (GetIter None None (plan_List_query c)) = ListParams_zero \<and>
           \<not> plan_Iter_Stop (GetIter None None (plan_List_query c))"
    by (simp add: GetIter_def plan_Iter_Stop_def Stop_def more_pages_def)
  have b: "empty_body (r_body (plan_Get_request c pid None)) \<and>
           empty_body (r_body (plan_Update_request c pid None)) \<and>
           empty_body (r_body (plan_List_request c Map.empty)) \<and>
           empty_body (r_body (plan_Del_request c pid))"
    by (simp add: empty_body_def plan_Get_request_def plan_Get_body_def plan_Update_request_def
        plan_Update_body_def plan_List_request_def plan_Del_request_def)
  show ?thesis
    by (simp add: l g b plan_List_nil_first_fetch plan_Get_def plan_Update_def plan_Del_def
        plan_New_def sub_New_def sub_Get_def sub_Update_def sub_Cancel_def sub_List_def)
qed

text \<open>
  As stated, claim C4 fails: every operation of the subscription client, and \<open>plan.New\<close>,
  reads a field of \<open>params\<close> first and panics on nil instead of building an empty body.
\<close>

theorem C4_nil_params_counterexample:
  "sub_New scripted_Client None [] = Inl NilDereference \<and>
   sub_Get scripted_Client ''sub_1'' None [] = Inl NilDereference \<and>
   sub_Update scripted_Client ''sub_1'' None [] = Inl NilDereference \<and>
   sub_Cancel scripted_Client ''sub_1'' None [] = Inl NilDereference \<and>
   sub_List scripted_Client None = Inl NilDereference \<and>
   plan_New scripted_Client None [] = Inl NilDereference"
  by (simp add: sub_New_def sub_Get_def sub_Update_def sub_Cancel_def sub_List_def plan_New_def)

section \<open>Event lookups\<close>

lemma descend_path_value:
  "descend (map_index m k) ks =
     (case path_value m (k # ks) of None \<Rightarrow> Inl TypeAssertion | Some v \<Rightarrow> Inr v)"
proof (induction ks arbitrary: m k)
  case Nil
  show ?case by simp
next
  case (Cons k' ks)
  show ?case
    by (cases "map_index m k") (simp_all add: Cons.IH)
qed

lemma getValue_path_value: "getValue m ks = lookup_result ks (path_value m ks)"
proof (cases ks)
  case Nil
  then show ?thesis by (simp add: getValue_def)
next
  case (Cons k ks')
  show ?thesis
  proof (cases "path_value m (k # ks')")
    case None
    then show ?thesis
      by (simp add: getValue_def Cons descend_path_value)
  next
    case (Some v)
    then show ?thesis
      by (cases v) (simp_all add: getValue_def Cons descend_path_value)
  qed
qed

text \<open>
  Claim C9. \<open>GetObjValue\<close> and \<open>GetPrevValue\<close> return what \<open>lookup_result\<close> says for the
  value the full key path reaches in the bag: the empty string when that value is nil, the
  string when it is one; a panic when the key list is empty, when an intermediate key is
  absent or maps to something that is not a string-keyed map (no value is reached), and
  when the value reached is neither nil nor a string. An event without \<open>Data\<close> has no bag:
  the lookup panics on the nil pointer.
\<close>

theorem C9_lookup_partial:
  "getValue m keys = lookup_result keys (path_value m keys) \<and>
   GetObjValue e keys =
     (case Data e of
        None \<Rightarrow> Inl NilDereference
      | Some d \<Rightarrow> lookup_result keys (path_value (Obj d) keys)) \<and>
   GetPrevValue e keys =
     (case Data e of
        None \<Rightarrow> Inl NilDereference
      | Some d \<Rightarrow> lookup_result keys (path_value (Prev d) keys))"
  by (simp add: getValue_path_value GetObjValue_def GetPrevValue_def split: option.split)

text \<open>Each case of the claim on \<open>example_event\<close>.\<close>

lemma GetObjValue_examples:
  "GetObjValue example_event [''id''] = Inr ''ch_1''"
  "GetObjValue example_event [''card'', ''last4''] = Inr ''4242''"
  "GetObjValue example_event [''customer''] = Inr ''''"
  "GetObjValue example_event [''card'', ''brand''] = Inr ''''"
  "GetObjValue example_event [] = Inl IndexOutOfRange"
  "GetObjValue example_event [''source'', ''last4''] = Inl TypeAssertion"
  "GetObjValue example_event [''id'', ''last4''] = Inl TypeAssertion"
  "GetObjValue example_event [''paid''] = Inl TypeAssertion"
  "GetObjValue example_event [''card''] = Inl TypeAssertion"
  "GetPrevValue example_event [''id''] = Inr ''''"
  "GetObjValue (example_event\<lparr>Data := None\<rparr>) [''id''] = Inl NilDereference"
  by (simp_all add: GetObjValue_def GetPrevValue_def getValue_def example_event_def map_index_def)



section \<open>Iteration\<close>

lemma sub_List_limit2: "sub_List scripted_Client (Some limit2) = Inr sub_iter0"
  by (simp add: sub_List_def sub_iter0_def)

lemma advance_keeps:
  "err (advance i) = err i \<and> buf (advance i) = buf i \<and> cur (advance i) = cur i \<and>
   meta (advance i) = meta i \<and> query (advance i) = query i"
  by (simp add: advance_def)

lemma Next_terminal: "err i = Some e \<Longrightarrow> Next i w = ((None, Some e), i, w)"
  by (simp add: Next_def)

lemma Next_failed_fetch:
  assumes "err i = None" "length (buf i) \<le> cur i" "more_pages i"
    and "snd (snd (fst (query (advance i) (qs (advance i)) w))) = Some e"
  shows "Next i w = ((None, Some e), (advance i)\<lparr>err := Some e\<rparr>,
                     snd (query (advance i) (qs (advance i)) w))"
  using assms by (simp add: Next_def getPage_def Let_def)

lemma sub_Iter_run_terminal:
  "err i = Some e \<Longrightarrow> sub_Iter_run n i w = replicate n (Inr ((None, Some e), True))"
  by (induction n) (simp_all add: sub_Iter_Next_def Next_terminal sub_Iter_Stop_def Stop_def)

text \<open>
  Claim C5. When the page fetch that \<open>Next\<close> makes fails with \<open>e\<close> (the iterator has no
  error yet, its buffer is exhausted and more pages may exist), \<open>Next\<close> of either typed
  iterator returns \<open>e\<close>; the iterator it leaves returns \<open>e\<close> again on every later call
  without changing, whatever the backend then holds; the page buffer, the index and the
  metadata of the pages delivered before are as they were; and \<open>Stop\<close> is true from then on.
\<close>

theorem C5_failed_fetch_terminal:
  assumes "err i = None" "length (buf i) \<le> cur i" "more_pages i"
    and "snd (snd (fst (query (advance i) (qs (advance i)) w))) = Some e"
  shows "sub_Iter_Next i w
           = Inr ((None, Some e), (advance i)\<lparr>err := Some e\<rparr>,
                  snd (query (advance i) (qs (advance i)) w)) \<and>
         plan_Iter_Next i w
           = Inr ((None, Some e), (advance i)\<lparr>err := Some e\<rparr>,
                  snd (query (advance i) (qs (advance i)) w)) \<and>
         sub_Iter_Next ((advance i)\<lparr>err := Some e\<rparr>) w2
           = Inr ((None, Some e), (advance i)\<lparr>err := Some e\<rparr>, w2) \<and>
         plan_Iter_Next ((advance i)\<lparr>err := Some e\<rparr>) w2
           = Inr ((None, Some e), (advance i)\<lparr>err := Some e\<rparr>, w2) \<and>
         sub_Iter_run n ((advance i)\<lparr>err := Some e\<rparr>) w2
           = replicate n (Inr ((None, Some e), True)) \<and>
         sub_Iter_Stop ((advance i)\<lparr>err := Some e\<rparr>) \<and>
         plan_Iter_Stop ((advance i)\<lparr>err := Some e\<rparr>) \<and>
         buf ((advance i)\<lparr>err := Some e\<rparr>) = buf i \<and>
         cur ((advance i)\<lparr>err := Some e\<rparr>) = cur i \<and>
         meta ((advance i)\<lparr>err := Some e\<rparr>) = meta i"
proof -
  let ?i' = "(advance i)\<lparr>err := Some e\<rparr>"
  have t: "err ?i' = Some e" by simp
  have a: "Next i w = ((None, Some e), ?i', snd (query (advance i) (qs (advance i)) w))"
    using assms by (rule Next_failed_fetch)
  have b: "Next ?i' w2 = ((None, Some e), ?i', w2)"
    using t by (rule Next_terminal)
  have c: "sub_Iter_run n ?i' w2 = replicate n (Inr ((None, Some e), True))"
    using t by (rule sub_Iter_run_terminal)
  show ?thesis
    by (simp add: sub_Iter_Next_def plan_Iter_Next_def a b c sub_Iter_Stop_def
        plan_Iter_Stop_def Stop_def advance_keeps)
qed

text \<open>
  The scenario of the claim: the fetch of page 2 fails. The two items of page 1 are
  delivered, leaving the iterator in the state \<open>after_page1\<close>; from there the theorem
  applies.
\<close>

lemma first_page_delivered:
  "sub_Iter_Next sub_iter0 failing_page2
     = Inr ((Some item1, None), after_page1\<lparr>cur := 1\<rparr>, [Inl (Error ''connection reset'')])"
  "sub_Iter_Next (after_page1\<lparr>cur := 1\<rparr>) [Inl (Error ''connection reset'')]
     = Inr ((Some item2, None), after_page1, [Inl (Error ''connection reset'')])"
  by (simp_all add: sub_iter0_def after_page1_def sub_Iter_Next_def Next_def getPage_def
      advance_def GetIter_def more_pages_def sub_List_query_def scripted_Client_def
      scripted_Backend_def serve_def failing_page2_def SubList_zero_def ListMeta.truncate_def
      Let_def)

theorem C5_failed_fetch_terminal_witness:
  "err after_page1 = None \<and> length (buf after_page1) \<le> cur after_page1 \<and>
   more_pages after_page1 \<and>
   snd (snd (fst (query (advance after_page1) (qs (advance after_page1))
                   [Inl (Error ''connection reset'')])))
     = Some (Error ''connection reset'') \<and>
   sub_Iter_Next after_page1 [Inl (Error ''connection reset'')]
     = Inr ((None, Some (Error ''connection reset'')),
            (advance after_page1)\<lparr>err := Some (Error ''connection reset'')\<rparr>, []) \<and>
   sub_Iter_Stop ((advance after_page1)\<lparr>err := Some (Error ''connection reset'')\<rparr>) \<and>
   sub_Iter_run 3 ((advance after_page1)\<lparr>err := Some (Error ''connection reset'')\<rparr>) []
     = [Inr ((None, Some (Error ''connection reset'')), True),
        Inr ((None, Some (Error ''connection reset'')), True),
        Inr ((None, Some (Error ''connection reset'')), True)]"
proof -
  have h1: "err after_page1 = None"
    by (simp add: after_page1_def sub_iter0_def GetIter_def)
  have h2: "length (buf after_page1) \<le> cur after_page1"
    by (simp add: after_page1_def)
  have h3: "more_pages after_page1"
    by (simp add: after_page1_def more_pages_def)
  have h4: "snd (snd (fst (query (advance after_page1) (qs (advance after_page1))
              [Inl (Error ''connection reset'')]))) = Some (Error ''connection reset'')"
    by (simp add: after_page1_def sub_iter0_def GetIter_def advance_def sub_List_query_def
        scripted_Client_def scripted_Backend_def serve_def)
  have w: "snd (query (advance after_page1) (qs (advance after_page1))
              [Inl (Error ''connection reset'')]) = []"
    by (simp add: after_page1_def sub_iter0_def GetIter_def advance_def sub_List_query_def
        scripted_Client_def scripted_Backend_def serve_def)
  from C5_failed_fetch_terminal [OF h1 h2 h3 h4, of "[]" 3] h1 h2 h3 h4 w show ?thesis
    by (simp add: numeral_3_eq_3)
qed

text \<open>The whole run of the scenario: two items, then the same error with \<open>Stop\<close> true.\<close>

lemma failing_page2_run:
  "sub_Iter_run 5 sub_iter0 failing_page2
     = [Inr ((Some item1, None), False),
        Inr ((Some item2, None), False),
        Inr ((None, Some (Error ''connection reset'')), True),
        Inr ((None, Some (Error ''connection reset'')), True),
        Inr ((None, Some (Error ''connection reset'')), True)]"
  by code_simp

lemma sub_iter0_limit: "qs sub_iter0 ''limit'' = Some [''2''] \<and> Limit (lparams sub_iter0) = 2"
  by (simp add: sub_iter0_def GetIter_def ListParams_AppendTo_def limit2_def AddAll_Nil Add_def
      ListParams.truncate_def formatBits.simps digit_def)

lemma sub_iter0_not_stopped: "\<not> sub_Iter_Stop sub_iter0"
  by (simp add: sub_iter0_def sub_Iter_Stop_def Stop_def GetIter_def more_pages_def)

lemma three_items_run:
  "sub_Iter_run 3 sub_iter0 three_items
     = [Inr ((Some item1, None), False),
        Inr ((Some item2, None), False),
        Inr ((Some item3, None), True)]"
  by code_simp

text \<open>
  Claim C1. The iterator \<open>sub.Client.List\<close> builds for \<open>ListParams{Limit: 2}\<close>, over a
  backend that serves three items in a page of 2 (more to come) and a page of 1 (no more),
  is not stopped at first; three calls of \<open>Next\<close> return item1, item2 and item3 in order,
  each without error; \<open>Stop\<close> is false after the first two and true after the third.
\<close>

theorem C1_three_items_in_order:
  "(case sub_List scripted_Client (Some limit2) of
      Inl p \<Rightarrow> False
    | Inr i \<Rightarrow>
        \<not> sub_Iter_Stop i \<and>
        sub_Iter_run 3 i three_items
          = [Inr ((Some item1, None), False),
             Inr ((Some item2, None), False),
             Inr ((Some item3, None), True)])"
  by (simp del: sub_Iter_run.simps
      add: sub_List_limit2 sub_iter0_not_stopped three_items_run)

end
